theory Spec2Isabelle
  imports Complex_Main
begin

section \<open>Messages and conversation state\<close>

text \<open>
  A message of the conversation. The sources use the message classes of the model SDK
  (\<open>HumanMessage\<close>, \<open>AIMessage\<close>, tool-result messages); the fields read or written by
  the sources are the content, the optional \<open>name\<close> and the optional \<open>tool_calls\<close>
  list (\<open>None\<close> is JavaScript's \<open>undefined\<close>: only model responses carry the field).
\<close>

datatype msg_type = Human | AI | ToolResult | System

record ToolCall =
  tc_name :: string
  tc_args :: string
  tc_id :: "string option"

record BaseMessage =
  msg_type :: msg_type
  content :: string
  name :: "string option"
  tool_calls :: "ToolCall list option"

text \<open>
  \<open>StateAnnotation\<close> (single-agent graph) has the one channel \<open>messages\<close>;
  \<open>AgentState\<close> (two-agent example) has \<open>messages\<close> and \<open>sender\<close>. Both name their
  message channel \<open>messages\<close>, so the second record extends the first.
\<close>

record StateAnnotation =
  messages :: "BaseMessage list"

record AgentState = StateAnnotation +
  sender :: string

text \<open>
  The partial state update returned by a node: every node of the sources returns
  \<open>messages\<close>; only \<open>runAgentNode\<close> returns \<open>sender\<close>.
\<close>

record Delta =
  d_messages :: "BaseMessage list"
  d_sender :: "string option"

subsection \<open>Reducers and defaults of the channels\<close>

text \<open>\<open>reducer: (currentState, updateValue) => currentState.concat(updateValue)\<close>,
  \<open>default: () => []\<close>\<close>

definition StateAnnotation_messages_reducer ::
  "BaseMessage list \<Rightarrow> BaseMessage list \<Rightarrow> BaseMessage list" where
  "StateAnnotation_messages_reducer currentState updateValue = currentState @ updateValue"

definition StateAnnotation_messages_default :: "BaseMessage list" where
  "StateAnnotation_messages_default = []"

text \<open>\<open>reducer: (x, y) => x.concat(y)\<close>\<close>

definition AgentState_messages_reducer ::
  "BaseMessage list \<Rightarrow> BaseMessage list \<Rightarrow> BaseMessage list" where
  "AgentState_messages_reducer x y = x @ y"

text \<open>\<open>reducer: (x, y) => y ?? x ?? "user"\<close>, \<open>default: () => "user"\<close>. The operator
  \<open>??\<close> falls through on \<open>null\<close> and \<open>undefined\<close> only (\<open>None\<close>); the empty string is a
  present value.\<close>

definition AgentState_sender_reducer :: "string option \<Rightarrow> string option \<Rightarrow> string" where
  "AgentState_sender_reducer x y =
     (case y of Some v \<Rightarrow> v
      | None \<Rightarrow> (case x of Some v \<Rightarrow> v | None \<Rightarrow> ''user''))"

definition AgentState_sender_default :: string where
  "AgentState_sender_default = ''user''"

text \<open>
  Modelled from the spec: the orchestrator's merge of a delta into the state, which is
  done by the graph library and is not part of the sources. ``Merge the returned delta
  field-by-field using each field's declared reducer (concatenation for \<open>messages\<close>,
  last-write-wins for \<open>sender\<close>).''
\<close>

definition merge_StateAnnotation :: "StateAnnotation \<Rightarrow> BaseMessage list \<Rightarrow> StateAnnotation" where
  "merge_StateAnnotation s upd =
     s\<lparr>messages := StateAnnotation_messages_reducer (messages s) upd\<rparr>"

definition merge_AgentState :: "AgentState \<Rightarrow> Delta \<Rightarrow> AgentState" where
  "merge_AgentState s d =
     s\<lparr>messages := AgentState_messages_reducer (messages s) (d_messages d),
       sender := AgentState_sender_reducer (Some (sender s)) (d_sender d)\<rparr>"

text \<open>The names supplied by a sequence of deltas, oldest first.\<close>

fun supplied_senders :: "Delta list \<Rightarrow> string list" where
  "supplied_senders [] = []"
| "supplied_senders (d # ds) =
     (case d_sender d of None \<Rightarrow> supplied_senders ds | Some n \<Rightarrow> n # supplied_senders ds)"

section \<open>Errors\<close>

text \<open>
  The failures a call can end in. \<open>TypeError\<close> is the JavaScript runtime's error on
  reading a property of \<open>undefined\<close>; \<open>ModelCallError\<close> is a rejected model call,
  \<open>ToolNodeError\<close> a failure of the prebuilt tool node, \<open>RenderError\<close> a failure of the
  canvas or display library, \<open>GraphError\<close> a node without a successor;
  \<open>StepLimitExceeded\<close> is the orchestrator's error of the specification.
\<close>

datatype error =
    TypeError
  | ModelCallError string
  | ToolNodeError string
  | RenderError string
  | GraphError string
  | StepLimitExceeded

section \<open>The two-agent example: agent nodes\<close>

text \<open>
  \<open>new HumanMessage({ ...result, name: name })\<close>: the fields of the response are copied,
  \<open>name\<close> is overridden, and the message built is a human message; a human message
  has no \<open>tool_calls\<close> field.
\<close>

definition HumanMessage :: "BaseMessage \<Rightarrow> BaseMessage" where
  "HumanMessage fs =
     \<lparr>msg_type = Human, content = content fs, name = name fs, tool_calls = None\<rparr>"

text \<open>
  \<open>runAgentNode\<close>. The agent is a runnable, the prompt piped into the chat model:
  invoking it on the state either rejects (the error propagates, no delta is returned)
  or yields the model's response message. The test \<open>!result?.tool_calls || result.tool_calls.length === 0\<close> holds when the field
  is absent or the list is empty.
\<close>

definition runAgentNode ::
  "AgentState \<Rightarrow> (AgentState \<Rightarrow> error + BaseMessage) \<Rightarrow> string \<Rightarrow> error + Delta" where
  "runAgentNode state agent nm =
     (case agent state of
        Inl e \<Rightarrow> Inl e
      | Inr result \<Rightarrow>
          let result' =
                (if (case tool_calls result of None \<Rightarrow> True | Some cs \<Rightarrow> length cs = 0)
                 then HumanMessage (result\<lparr>name := Some nm\<rparr>)
                 else result)
          in Inr \<lparr>d_messages = [result'], d_sender = Some nm\<rparr>)"

definition researchNode ::
  "(AgentState \<Rightarrow> error + BaseMessage) \<Rightarrow> AgentState \<Rightarrow> error + Delta" where
  "researchNode researchAgent state = runAgentNode state researchAgent ''Researcher''"

definition chartNode ::
  "(AgentState \<Rightarrow> error + BaseMessage) \<Rightarrow> AgentState \<Rightarrow> error + Delta" where
  "chartNode chartAgent state = runAgentNode state chartAgent ''ChartGenerator''"

text \<open>
  Modelled from the spec: a run of the two-agent example. The sources define the two
  agent nodes and call one of them once; they compile no graph over \<open>AgentState\<close>. A
  run is a sequence of steps, each the research node, the chart node or a Dispatcher
  step, whose delta is \<open>{ messages: [result...] }\<close> and supplies no \<open>sender\<close>; each
  delta is merged by the reducers, and a failing step ends the run.
\<close>

datatype step = ResearchStep | ChartStep | DispatcherStep "BaseMessage list"

fun step_delta ::
  "(AgentState \<Rightarrow> error + BaseMessage) \<Rightarrow> (AgentState \<Rightarrow> error + BaseMessage) \<Rightarrow>
   step \<Rightarrow> AgentState \<Rightarrow> error + Delta" where
  "step_delta researchAgent chartAgent ResearchStep s = researchNode researchAgent s"
| "step_delta researchAgent chartAgent ChartStep s = chartNode chartAgent s"
| "step_delta researchAgent chartAgent (DispatcherStep results) s =
     Inr \<lparr>d_messages = results, d_sender = None\<rparr>"

fun run_steps ::
  "(AgentState \<Rightarrow> error + BaseMessage) \<Rightarrow> (AgentState \<Rightarrow> error + BaseMessage) \<Rightarrow>
   AgentState \<Rightarrow> step list \<Rightarrow> error + AgentState" where
  "run_steps researchAgent chartAgent s [] = Inr s"
| "run_steps researchAgent chartAgent s (st # sts) =
     (case step_delta researchAgent chartAgent st s of
        Inl e \<Rightarrow> Inl e
      | Inr d \<Rightarrow> run_steps researchAgent chartAgent (merge_AgentState s d) sts)"

text \<open>The names of the agent steps of a run, oldest first: the research node runs as
  \<open>Researcher\<close>, the chart node as \<open>ChartGenerator\<close>; a Dispatcher step has none.\<close>

fun agent_step_names :: "step list \<Rightarrow> string list" where
  "agent_step_names [] = []"
| "agent_step_names (ResearchStep # sts) = ''Researcher'' # agent_step_names sts"
| "agent_step_names (ChartStep # sts) = ''ChartGenerator'' # agent_step_names sts"
| "agent_step_names (DispatcherStep results # sts) = agent_step_names sts"

definition known_senders :: "string list" where
  "known_senders = [''user'', ''User'', ''Researcher'', ''ChartGenerator'']"

section \<open>The single-agent graph\<close>

text \<open>\<open>messages[messages.length - 1]\<close>: \<open>undefined\<close> on the empty array.\<close>

definition lastMessage_of :: "BaseMessage list \<Rightarrow> BaseMessage option" where
  "lastMessage_of ms = (if ms = [] then None else Some (last ms))"

text \<open>The number of tool invocations a message carries (none when the field is absent).\<close>

definition pending_tool_calls :: "BaseMessage \<Rightarrow> nat" where
  "pending_tool_calls m = (case tool_calls m of None \<Rightarrow> 0 | Some cs \<Rightarrow> length cs)"

text \<open>
  \<open>shouldContinue\<close>. \<open>lastMessage.tool_calls?.length\<close> reads \<open>tool_calls\<close> of the last
  message: a \<open>TypeError\<close> when there is no last message; the optional chaining guards
  only an absent \<open>tool_calls\<close> field. The condition is truthy for a non-zero length.
\<close>

definition shouldContinue :: "StateAnnotation \<Rightarrow> error + string" where
  "shouldContinue state =
     (case lastMessage_of (messages state) of
        None \<Rightarrow> Inl TypeError
      | Some lastMessage \<Rightarrow>
          (case tool_calls lastMessage of
             None \<Rightarrow> Inr ''__end__''
           | Some cs \<Rightarrow> if length cs \<noteq> 0 then Inr ''tools'' else Inr ''__end__''))"

text \<open>\<open>callModel\<close>: the model is invoked on the message list; the delta holds its response.\<close>

definition callModel ::
  "(BaseMessage list \<Rightarrow> error + BaseMessage) \<Rightarrow> StateAnnotation \<Rightarrow> error + BaseMessage list" where
  "callModel model state =
     (case model (messages state) of Inl e \<Rightarrow> Inl e | Inr response \<Rightarrow> Inr [response])"

text \<open>
  The collaborators of the graph: the bound chat model and the prebuilt tool node, both
  of third-party libraries and taken as parameters.
\<close>

record GraphEnv =
  model :: "BaseMessage list \<Rightarrow> error + BaseMessage"
  toolNode :: "StateAnnotation \<Rightarrow> error + BaseMessage list"

text \<open>
  The graph as built: \<open>addNode("agent", callModel)\<close>, \<open>addNode("tools", toolNode)\<close>,
  \<open>addEdge("__start__", "agent")\<close>, \<open>addConditionalEdges("agent", shouldContinue)\<close>,
  \<open>addEdge("tools", "agent")\<close>.
\<close>

definition graph_nodes ::
  "GraphEnv \<Rightarrow> (string \<times> (StateAnnotation \<Rightarrow> error + BaseMessage list)) list" where
  "graph_nodes env = [(''agent'', callModel (model env)), (''tools'', toolNode env)]"

definition graph_edges :: "(string \<times> string) list" where
  "graph_edges = [(''__start__'', ''agent''), (''tools'', ''agent'')]"

definition graph_conditional_edges ::
  "(string \<times> (StateAnnotation \<Rightarrow> error + string)) list" where
  "graph_conditional_edges = [(''agent'', shouldContinue)]"

text \<open>The fixed successors of a node.\<close>

definition fixed_successors :: "string \<Rightarrow> string list" where
  "fixed_successors node = map snd (filter (\<lambda>e. fst e = node) graph_edges)"

text \<open>
  Modelled from the spec: the orchestrator, which is the graph library's executor and
  is not part of the sources. ``On entering a node, invoke its bound Agent or
  Dispatcher with current state, merge the returned delta [...], then evaluate edges
  out of that node -- either a fixed successor or the Routing Function's output -- to
  pick the next node. Terminal condition: reaching the terminal marker, or
  (operator-configured) a maximum step count exceeded, which must fail with
  \<open>StepLimitExceeded\<close> rather than loop forever'', ``returning the state as of that
  point''.
\<close>

definition next_node :: "string \<Rightarrow> StateAnnotation \<Rightarrow> error + string" where
  "next_node node s =
     (case map_of graph_conditional_edges node of
        Some route \<Rightarrow> route s
      | None \<Rightarrow>
          (case map_of graph_edges node of
             Some n \<Rightarrow> Inr n
           | None \<Rightarrow> Inl (GraphError node)))"

definition graph_step :: "GraphEnv \<Rightarrow> string \<Rightarrow> StateAnnotation \<Rightarrow> error + string \<times> StateAnnotation" where
  "graph_step env node s =
     (case map_of (graph_nodes env) node of
        None \<Rightarrow> Inl (GraphError node)
      | Some invoke \<Rightarrow>
          (case invoke s of
             Inl e \<Rightarrow> Inl e
           | Inr upd \<Rightarrow>
               let s' = merge_StateAnnotation s upd
               in (case next_node node s' of
                     Inl e \<Rightarrow> Inl e
                   | Inr n \<Rightarrow> Inr (n, s'))))"

text \<open>
  The outcome of a run: the nodes executed, in order, and the state merged so far,
  either at the terminal marker or with the error that ended the run.
\<close>

datatype outcome =
    Completed "string list" StateAnnotation
  | Aborted error "string list" StateAnnotation

fun run :: "GraphEnv \<Rightarrow> nat \<Rightarrow> string \<Rightarrow> string list \<Rightarrow> StateAnnotation \<Rightarrow> outcome" where
  "run env 0 node visited s =
     (if node = ''__end__'' then Completed visited s
      else Aborted StepLimitExceeded visited s)"
| "run env (Suc k) node visited s =
     (if node = ''__end__'' then Completed visited s
      else (case graph_step env node s of
              Inl e \<Rightarrow> Aborted e visited s
            | Inr (n, s') \<Rightarrow> run env k n (visited @ [node]) s'))"

text \<open>\<open>app.invoke(input)\<close> with a step limit, on a thread without a checkpoint: the
  channels start from their defaults, the input is merged, and the run starts at the
  successor of \<open>__start__\<close>.\<close>

definition app_invoke :: "GraphEnv \<Rightarrow> nat \<Rightarrow> BaseMessage list \<Rightarrow> outcome" where
  "app_invoke env limit input =
     (case next_node ''__start__'' \<lparr>messages = StateAnnotation_messages_default\<rparr> of
        Inl e \<Rightarrow> Aborted e [] \<lparr>messages = StateAnnotation_messages_default\<rparr>
      | Inr entry \<Rightarrow>
          run env limit entry []
            (merge_StateAnnotation \<lparr>messages = StateAnnotation_messages_default\<rparr> input))"

text \<open>The node and state reached after exactly \<open>n\<close> steps with no limit, if the run
  gets that far.\<close>

fun after_steps :: "GraphEnv \<Rightarrow> nat \<Rightarrow> string \<Rightarrow> StateAnnotation \<Rightarrow> (string \<times> StateAnnotation) option" where
  "after_steps env 0 node s = Some (node, s)"
| "after_steps env (Suc k) node s =
     (if node = ''__end__'' then None
      else (case graph_step env node s of
              Inl e \<Rightarrow> None
            | Inr (n, s') \<Rightarrow> after_steps env k n s'))"

section \<open>The chart tool\<close>

text \<open>
  A data point of the tool's schema (\<open>label: z.string()\<close>, \<open>value: z.number()\<close>).
  JavaScript numbers are idealised as reals; the layout arithmetic is kept as written.
\<close>

record DataPoint =
  dp_label :: string
  dp_value :: real

text \<open>The calls the handler makes on the 2D context, in the order it makes them.\<close>

datatype canvas_op =
    SetFillStyle string
  | FillRect real real real real
  | BeginPath
  | SetStrokeStyle string
  | MoveTo real real
  | LineTo real real
  | Stroke
  | SetTextAlign string
  | SetTextBaseline string
  | FillText string real real

text \<open>The scale objects the handler gets from the charting library: the band scale
  \<open>x\<close> (\<open>x(d)\<close>, \<open>x.bandwidth()\<close>, \<open>x.domain()\<close>) and the linear scale \<open>y\<close> (\<open>y(v)\<close>,
  \<open>y.ticks()\<close>).\<close>

record BandScale =
  band_at :: "string \<Rightarrow> real option"
  bandwidth :: real
  band_domain :: "string list"

record LinearScale =
  lin_at :: "real \<Rightarrow> real"
  ticks :: "real list"

text \<open>
  The third-party calls of the handler, taken as parameters: \<open>createCanvas\<close>,
  \<open>d3.scaleBand().domain(..).range(..).padding(..)\<close>, \<open>d3.max\<close>,
  \<open>d3.scaleLinear().domain(..).nice().range(..)\<close>, \<open>Number.prototype.toString\<close> and
  \<open>tslab.display.png(canvas.toBuffer())\<close>, which receives what was drawn. Creating the
  canvas and displaying the image can fail.
\<close>

record ChartLibs =
  createCanvas :: "real \<Rightarrow> real \<Rightarrow> error + unit"
  scaleBand :: "string list \<Rightarrow> real \<times> real \<Rightarrow> real \<Rightarrow> BandScale"
  d3_max :: "real list \<Rightarrow> real option"
  scaleLinear_nice :: "real \<times> real \<Rightarrow> real \<times> real \<Rightarrow> LinearScale"
  toString :: "real \<Rightarrow> string"
  display_png :: "canvas_op list \<Rightarrow> error + unit"

definition colorPalette :: "string list" where
  "colorPalette =
     [''#e6194B'', ''#3cb44b'', ''#ffe119'', ''#4363d8'', ''#f58231'',
      ''#911eb4'', ''#42d4f4'', ''#f032e6'', ''#bfef45'', ''#fabebe'']"

text \<open>\<open>x(d) ?? 0\<close>\<close>

definition or_zero :: "real option \<Rightarrow> real" where
  "or_zero v = (case v of None \<Rightarrow> 0 | Some r \<Rightarrow> r)"

text \<open>
  The handler of \<open>chartTool\<close>. It returns the operations drawn on the canvas (the side
  effect handed to the display) together with the handler's return value.
\<close>

definition chartTool :: "ChartLibs \<Rightarrow> DataPoint list \<Rightarrow> error + canvas_op list \<times> string" where
  "chartTool libs data =
     (let width = 500; height = 500;
          margin_top = 20; margin_right = 30; margin_bottom = 30; margin_left = 40
      in case createCanvas libs width height of
           Inl e \<Rightarrow> Inl e
         | Inr _ \<Rightarrow>
             let x = scaleBand libs (map dp_label data) (margin_left, width - margin_right) 0.1;
                 y = scaleLinear_nice libs (0, or_zero (d3_max libs (map dp_value data)))
                       (height - margin_bottom, margin_top);
                 bars = concat (map (\<lambda>(idx, d).
                          [SetFillStyle (colorPalette ! (idx mod length colorPalette)),
                           FillRect (or_zero (band_at x (dp_label d))) (lin_at y (dp_value d))
                             (bandwidth x) (height - margin_bottom - lin_at y (dp_value d))])
                          (enumerate 0 data));
                 x_axis = [BeginPath, SetStrokeStyle ''black'',
                           MoveTo margin_left (height - margin_bottom),
                           LineTo (width - margin_right) (height - margin_bottom),
                           Stroke];
                 x_labels = [SetTextAlign ''center'', SetTextBaseline ''top''] @
                            map (\<lambda>d. FillText d (or_zero (band_at x d) + bandwidth x / 2)
                                         (height - margin_bottom + 6))
                                (band_domain x);
                 y_axis = [BeginPath, MoveTo margin_left (height - margin_top),
                           LineTo margin_left (height - margin_bottom), Stroke];
                 y_ticks = [SetTextAlign ''right'', SetTextBaseline ''middle''] @
                           concat (map (\<lambda>d.
                             [MoveTo margin_left (lin_at y d),
                              LineTo (margin_left - 6) (lin_at y d),
                              Stroke,
                              FillText (toString libs d) (margin_left - 8) (lin_at y d)])
                             (ticks y));
                 drawn = bars @ x_axis @ x_labels @ y_axis @ y_ticks
             in (case display_png libs drawn of
                   Inl e \<Rightarrow> Inl e
                 | Inr _ \<Rightarrow> Inr (drawn, ''Chart has been generated and displayed to the user!'')))"

section \<open>Example values\<close>

text \<open>
  \<open>new HumanMessage("...")\<close> as the sources' invocations build it, a model response
  carrying the given tool invocations, and a tool-result message; used as concrete
  inputs below.
\<close>

definition human_text :: "string \<Rightarrow> BaseMessage" where
  "human_text c = \<lparr>msg_type = Human, content = c, name = None, tool_calls = None\<rparr>"

definition ai_response :: "string \<Rightarrow> ToolCall list \<Rightarrow> BaseMessage" where
  "ai_response c calls = \<lparr>msg_type = AI, content = c, name = None, tool_calls = Some calls\<rparr>"

definition tool_result :: "string \<Rightarrow> BaseMessage" where
  "tool_result c = \<lparr>msg_type = ToolResult, content = c, name = None, tool_calls = None\<rparr>"

definition search_call :: ToolCall where
  "search_call = \<lparr>tc_name = ''tavily_search_results_json'', tc_args = ''X'', tc_id = Some ''1''\<rparr>"

text \<open>
  Stand-ins for the chart libraries, used as concrete inputs below: every band sits at
  the start of the range, the linear scale maps every value to the start of its range
  and has the one tick at the lower end of its domain, and creating the canvas and
  displaying the image succeed.
\<close>

definition stub_libs :: ChartLibs where
  "stub_libs =
     \<lparr>createCanvas = (\<lambda>w h. Inr ()),
      scaleBand = (\<lambda>dom rng pad.
        \<lparr>band_at = (\<lambda>l. if l \<in> set dom then Some (fst rng) else None),
         bandwidth = snd rng - fst rng,
         band_domain = remdups dom\<rparr>),
      d3_max = (\<lambda>xs. if xs = [] then None else Some (fold max xs (hd xs))),
      scaleLinear_nice = (\<lambda>dom rng. \<lparr>lin_at = (\<lambda>v. fst rng), ticks = [fst dom]\<rparr>),
      toString = (\<lambda>v. ''0''),
      display_png = (\<lambda>ops. Inr ())\<rparr>"

section \<open>Properties of the state\<close>

lemma messages_merge_AgentState:
  "messages (merge_AgentState s d) = messages s @ d_messages d"
  by (simp add: merge_AgentState_def AgentState_messages_reducer_def)

lemma messages_merge_StateAnnotation:
  "messages (merge_StateAnnotation s upd) = messages s @ upd"
  by (simp add: merge_StateAnnotation_def StateAnnotation_messages_reducer_def)

lemma messages_foldl_merge_AgentState:
  "messages (foldl merge_AgentState s ds) = messages s @ concat (map d_messages ds)"
  by (induction ds arbitrary: s) (simp_all add: messages_merge_AgentState)

lemma messages_foldl_merge_StateAnnotation:
  "messages (foldl merge_StateAnnotation s upds) = messages s @ concat upds"
  by (induction upds arbitrary: s) (simp_all add: messages_merge_StateAnnotation)

lemma sender_merge_AgentState:
  "sender (merge_AgentState s d) = (case d_sender d of None \<Rightarrow> sender s | Some n \<Rightarrow> n)"
  by (simp add: merge_AgentState_def AgentState_sender_reducer_def split: option.splits)

lemma sender_foldl_merge_AgentState:
  "sender (foldl merge_AgentState s ds) =
     (if supplied_senders ds = [] then sender s else last (supplied_senders ds))"
proof (induction ds arbitrary: s)
  case Nil
  show ?case by simp
next
  case (Cons d ds)
  show ?case
    by (cases "d_sender d") (simp_all add: Cons.IH sender_merge_AgentState)
qed

text \<open>
  Claim C1. The \<open>messages\<close> channel is append-only under both state schemas: after
  merging any sequence of deltas the list is the initial list followed by the deltas'
  message lists in order, so its length is the initial length plus the sum of the
  lengths of the deltas' lists, and every earlier message keeps its position.
\<close>

theorem messages_append_only:
  "messages (foldl merge_AgentState s ds) = messages s @ concat (map d_messages ds)
   \<and> length (messages (foldl merge_AgentState s ds))
       = length (messages s) + sum_list (map (length \<circ> d_messages) ds)
   \<and> take (length (messages s)) (messages (foldl merge_AgentState s ds)) = messages s
   \<and> messages (foldl merge_StateAnnotation t upds) = messages t @ concat upds
   \<and> length (messages (foldl merge_StateAnnotation t upds))
       = length (messages t) + sum_list (map length upds)
   \<and> take (length (messages t)) (messages (foldl merge_StateAnnotation t upds)) = messages t"
  by (simp add: messages_foldl_merge_AgentState messages_foldl_merge_StateAnnotation
      length_concat comp_def)

lemma runAgentNode_sender:
  "runAgentNode s agent nm = Inr d \<Longrightarrow> d_sender d = Some nm"
  by (auto simp add: runAgentNode_def Let_def split: sum.splits)

lemma step_delta_sender:
  "step_delta ra ca st s = Inr d \<Longrightarrow>
   d_sender d = None \<or> d_sender d = Some ''Researcher'' \<or> d_sender d = Some ''ChartGenerator''"
  by (cases st) (auto simp add: researchNode_def chartNode_def dest: runAgentNode_sender)

lemma sender_after_step:
  "step_delta ra ca st s = Inr d \<Longrightarrow>
   last (sender (merge_AgentState s d) # agent_step_names sts)
     = last (sender s # agent_step_names (st # sts))"
  by (cases st)
     (auto simp add: researchNode_def chartNode_def sender_merge_AgentState
       dest!: runAgentNode_sender)

lemma sender_run_steps:
  "run_steps ra ca s sts = Inr s' \<Longrightarrow> sender s' = last (sender s # agent_step_names sts)"
proof (induction sts arbitrary: s)
  case Nil
  then show ?case by simp
next
  case (Cons st sts)
  from Cons.prems obtain d where d: "step_delta ra ca st s = Inr d"
    and r: "run_steps ra ca (merge_AgentState s d) sts = Inr s'"
    by (auto split: sum.splits)
  from Cons.IH [OF r] sender_after_step [OF d, of sts] show ?case by simp
qed

lemmas agent_eval =
  researchNode_def chartNode_def runAgentNode_def HumanMessage_def
  merge_AgentState_def AgentState_messages_reducer_def AgentState_sender_reducer_def
  known_senders_def ai_response_def tool_result_def human_text_def search_call_def

text \<open>
  Claim C2. The \<open>sender\<close> reducer is last-write-wins over present values: a delta that
  supplies a name sets \<open>sender\<close> to it, a delta that supplies none leaves \<open>sender\<close>
  unchanged, and after any sequence of deltas \<open>sender\<close> is the name supplied most
  recently (the initial value when none was supplied). In a run, \<open>sender\<close> is the name
  of the most recent agent step, whatever Dispatcher steps came after it.
\<close>

theorem sender_last_write_wins:
  "AgentState_sender_reducer x (Some n) = n
   \<and> AgentState_sender_reducer (Some c) None = c
   \<and> sender (merge_AgentState s \<lparr>d_messages = ms, d_sender = Some n\<rparr>) = n
   \<and> sender (merge_AgentState s \<lparr>d_messages = ms, d_sender = None\<rparr>) = sender s
   \<and> sender (foldl merge_AgentState s ds) = last (sender s # supplied_senders ds)
   \<and> (run_steps ra ca s sts = Inr s' \<longrightarrow> sender s' = last (sender s # agent_step_names sts))"
  by (simp add: sender_foldl_merge_AgentState sender_merge_AgentState
      AgentState_sender_reducer_def sender_run_steps)

theorem sender_last_write_wins_witness:
  "run_steps (\<lambda>_. Inr (ai_response ''call'' [search_call])) (\<lambda>_. Inr (ai_response ''chart'' []))
     \<lparr>messages = [human_text ''Research X''], sender = ''User''\<rparr>
     [ChartStep, ResearchStep, DispatcherStep [tool_result ''result'']]
   = Inr \<lparr>messages = [human_text ''Research X'',
                       \<lparr>msg_type = Human, content = ''chart'',
                        name = Some ''ChartGenerator'', tool_calls = None\<rparr>,
                       ai_response ''call'' [search_call], tool_result ''result''],
          sender = ''Researcher''\<rparr>"
  using sender_last_write_wins
    [of None "''Researcher''" "''User''"
        "\<lparr>messages = [human_text ''Research X''], sender = ''User''\<rparr>" "[]" "[]"
        "\<lambda>_. Inr (ai_response ''call'' [search_call])"
        "\<lambda>_. Inr (ai_response ''chart'' [])"
        "[ChartStep, ResearchStep, DispatcherStep [tool_result ''result'']]"
        "\<lparr>messages = [human_text ''Research X'',
                       \<lparr>msg_type = Human, content = ''chart'',
                        name = Some ''ChartGenerator'', tool_calls = None\<rparr>,
                       ai_response ''call'' [search_call], tool_result ''result''],
          sender = ''Researcher''\<rparr>"]
  by (simp add: agent_eval)

text \<open>
  Claim C8. Starting from a state whose \<open>sender\<close> is the sentinel \<open>user\<close> or \<open>User\<close> (or
  an agent name), every state reached by research, chart and Dispatcher steps has a
  \<open>sender\<close> among \<open>user\<close>, \<open>User\<close>, \<open>Researcher\<close> and \<open>ChartGenerator\<close>.
\<close>

theorem sender_known:
  "sender s \<in> set known_senders \<Longrightarrow> run_steps ra ca s sts = Inr s' \<Longrightarrow>
   sender s' \<in> set known_senders"
proof (induction sts arbitrary: s)
  case Nil
  then show ?case by simp
next
  case (Cons st sts)
  from Cons.prems(2) obtain d where d: "step_delta ra ca st s = Inr d"
    and r: "run_steps ra ca (merge_AgentState s d) sts = Inr s'"
    by (auto split: sum.splits)
  from step_delta_sender [OF d] Cons.prems(1)
  have "sender (merge_AgentState s d) \<in> set known_senders"
    by (auto simp add: sender_merge_AgentState known_senders_def)
  from Cons.IH [OF this r] show ?case .
qed

theorem sender_known_witness:
  "run_steps (\<lambda>_. Inr (ai_response ''call'' [search_call])) (\<lambda>_. Inr (ai_response ''FINAL ANSWER'' []))
     \<lparr>messages = [human_text ''Research X''], sender = ''User''\<rparr>
     [ResearchStep, DispatcherStep [tool_result ''result''], ChartStep]
   = Inr \<lparr>messages = [human_text ''Research X'', ai_response ''call'' [search_call],
                       tool_result ''result'',
                       \<lparr>msg_type = Human, content = ''FINAL ANSWER'',
                        name = Some ''ChartGenerator'', tool_calls = None\<rparr>],
          sender = ''ChartGenerator''\<rparr>
   \<and> ''ChartGenerator'' \<in> set known_senders"
  using sender_known
    [of "\<lparr>messages = [human_text ''Research X''], sender = ''User''\<rparr>"
        "\<lambda>_. Inr (ai_response ''call'' [search_call])"
        "\<lambda>_. Inr (ai_response ''FINAL ANSWER'' [])"
        "[ResearchStep, DispatcherStep [tool_result ''result''], ChartStep]"
        "\<lparr>messages = [human_text ''Research X'', ai_response ''call'' [search_call],
                       tool_result ''result'',
                       \<lparr>msg_type = Human, content = ''FINAL ANSWER'',
                        name = Some ''ChartGenerator'', tool_calls = None\<rparr>],
          sender = ''ChartGenerator''\<rparr>"]
  by (simp add: agent_eval)

section \<open>Properties of the agent node\<close>

text \<open>
  Claim C3. Whenever the agent's model call returns a response, \<open>runAgentNode\<close>
  returns a delta of the shape \<open>{ messages: [m], sender: name }\<close> with exactly one
  message; when the response carries zero tool invocations (the field absent or the
  list empty), \<open>m\<close> is a human message with the response's content, attributed to the
  agent's name; otherwise \<open>m\<close> is the response itself.
\<close>

theorem runAgentNode_delta:
  "agent state = Inr result \<Longrightarrow>
   \<exists>m. runAgentNode state agent nm = Inr \<lparr>d_messages = [m], d_sender = Some nm\<rparr>
     \<and> (pending_tool_calls result = 0 \<longrightarrow>
          m = \<lparr>msg_type = Human, content = content result, name = Some nm, tool_calls = None\<rparr>)
     \<and> (pending_tool_calls result \<noteq> 0 \<longrightarrow> m = result)"
  by (cases "tool_calls result")
     (simp_all add: runAgentNode_def HumanMessage_def pending_tool_calls_def)

text \<open>The scenario of the specification: a model stub echoing a response without tool
  invocations, run as the researcher.\<close>

theorem runAgentNode_delta_witness:
  "runAgentNode \<lparr>messages = [human_text ''Research X''], sender = ''User''\<rparr>
     (\<lambda>_. Inr (ai_response ''echo'' [])) ''Researcher''
   = Inr \<lparr>d_messages = [\<lparr>msg_type = Human, content = ''echo'', name = Some ''Researcher'',
                          tool_calls = None\<rparr>],
          d_sender = Some ''Researcher''\<rparr>"
  using runAgentNode_delta
    [of "\<lambda>_. Inr (ai_response ''echo'' [])"
        "\<lparr>messages = [human_text ''Research X''], sender = ''User''\<rparr>"
        "ai_response ''echo'' []" "''Researcher''"]
  by (simp add: pending_tool_calls_def ai_response_def)

section \<open>Properties of the routing function\<close>

text \<open>
  Claim C4. On a state that has a last message, \<open>shouldContinue\<close> routes to \<open>tools\<close>
  when that message carries one or more tool invocations and to \<open>__end__\<close> otherwise;
  and its result depends on the last message only: two states with the same last
  message get the same decision.
\<close>

theorem shouldContinue_last_message:
  "(messages s = ms @ [m] \<longrightarrow>
      shouldContinue s = Inr (if 1 \<le> pending_tool_calls m then ''tools'' else ''__end__''))
   \<and> (lastMessage_of (messages s) = lastMessage_of (messages t) \<longrightarrow>
      shouldContinue s = shouldContinue t)"
  by (cases "tool_calls m")
     (auto simp add: shouldContinue_def lastMessage_of_def pending_tool_calls_def Suc_le_eq)

theorem shouldContinue_last_message_witness:
  "shouldContinue \<lparr>messages = [human_text ''q'', ai_response ''call'' [search_call]]\<rparr>
     = Inr ''tools''
   \<and> shouldContinue \<lparr>messages = [ai_response ''call'' [search_call]]\<rparr> = Inr ''tools''"
  using shouldContinue_last_message
    [of "\<lparr>messages = [human_text ''q'', ai_response ''call'' [search_call]]\<rparr>"
        "[human_text ''q'']" "ai_response ''call'' [search_call]"
        "\<lparr>messages = [ai_response ''call'' [search_call]]\<rparr>"]
  by (auto simp add: pending_tool_calls_def lastMessage_of_def ai_response_def)

text \<open>
  Claim C5 as stated does not hold: on the state holding the default of the
  \<open>messages\<close> channel, the empty list, \<open>shouldContinue\<close> returns no node, since reading
  \<open>tool_calls\<close> of the missing last message is a \<open>TypeError\<close>.
\<close>

theorem shouldContinue_default_state:
  "shouldContinue \<lparr>messages = StateAnnotation_messages_default\<rparr> = Inl TypeError"
  by (simp add: shouldContinue_def lastMessage_of_def StateAnnotation_messages_default_def)

text \<open>
  Claim C5, amended. \<open>shouldContinue\<close> returns a next node, \<open>tools\<close> or \<open>__end__\<close>, for
  every state with at least one message; this covers every state the graph routes on,
  since the router runs on the state merged with the delta of \<open>callModel\<close>, which holds
  the model's response. As a function of the state it changes nothing and performs no
  input or output.
\<close>

theorem shouldContinue_total_on_nonempty:
  "(messages s \<noteq> [] \<longrightarrow>
      shouldContinue s = Inr ''tools'' \<or> shouldContinue s = Inr ''__end__'')
   \<and> (callModel mdl t = Inr upd \<longrightarrow>
      shouldContinue (merge_StateAnnotation t upd) = Inr ''tools''
      \<or> shouldContinue (merge_StateAnnotation t upd) = Inr ''__end__'')"
  by (auto simp add: shouldContinue_def lastMessage_of_def callModel_def
      messages_merge_StateAnnotation split: option.splits sum.splits)

theorem shouldContinue_total_on_nonempty_witness:
  "shouldContinue \<lparr>messages = [human_text ''q'']\<rparr> = Inr ''__end__''
   \<and> shouldContinue (merge_StateAnnotation \<lparr>messages = []\<rparr> [ai_response ''a'' [search_call]])
       = Inr ''tools''"
  using shouldContinue_total_on_nonempty
    [of "\<lparr>messages = [human_text ''q'']\<rparr>"
      "\<lambda>_. Inr (ai_response ''a'' [search_call])"
      "\<lparr>messages = []\<rparr>"
      "[ai_response ''a'' [search_call]]"]
  by (simp add: callModel_def shouldContinue_def lastMessage_of_def human_text_def ai_response_def
      merge_StateAnnotation_def StateAnnotation_messages_reducer_def)

section \<open>Properties of the graph run\<close>

lemma next_node_tools: "next_node ''tools'' s = Inr ''agent''"
  by (simp add: next_node_def graph_conditional_edges_def graph_edges_def)

lemma next_node_agent: "next_node ''agent'' s = shouldContinue s"
  by (simp add: next_node_def graph_conditional_edges_def)

lemma graph_step_agent:
  "graph_step env ''agent'' s =
     (case model env (messages s) of
        Inl e \<Rightarrow> Inl e
      | Inr r \<Rightarrow> (case shouldContinue (merge_StateAnnotation s [r]) of
                   Inl e \<Rightarrow> Inl e
                 | Inr n \<Rightarrow> Inr (n, merge_StateAnnotation s [r])))"
  by (simp add: graph_step_def graph_nodes_def callModel_def next_node_agent Let_def
      split: sum.splits)

lemma graph_step_tools:
  "graph_step env ''tools'' s =
     (case toolNode env s of
        Inl e \<Rightarrow> Inl e
      | Inr upd \<Rightarrow> Inr (''agent'', merge_StateAnnotation s upd))"
  by (simp add: graph_step_def graph_nodes_def next_node_tools Let_def split: sum.splits)

lemma graph_step_other:
  "node \<noteq> ''agent'' \<Longrightarrow> node \<noteq> ''tools'' \<Longrightarrow> graph_step env node s = Inl (GraphError node)"
  by (simp add: graph_step_def graph_nodes_def)

lemma shouldContinue_snoc:
  "shouldContinue (merge_StateAnnotation s [r]) =
     Inr (if pending_tool_calls r = 0 then ''__end__'' else ''tools'')"
  by (simp add: shouldContinue_def lastMessage_of_def messages_merge_StateAnnotation
      pending_tool_calls_def split: option.splits)

lemma graph_step_end:
  assumes "graph_step env node s = Inr (''__end__'', s')"
  shows "node = ''agent'' \<and> (\<exists>m. messages s' = messages s @ [m] \<and> pending_tool_calls m = 0)"
proof (cases "node = ''agent''")
  case True
  with assms show ?thesis
    by (auto simp add: graph_step_agent shouldContinue_snoc messages_merge_StateAnnotation
        split: sum.splits if_splits)
next
  case False
  show ?thesis
  proof (cases "node = ''tools''")
    case True
    with assms show ?thesis by (auto simp add: graph_step_tools split: sum.splits)
  next
    case False
    with \<open>node \<noteq> ''agent''\<close> assms show ?thesis by (simp add: graph_step_other)
  qed
qed

lemma run_completed:
  "run env limit node visited s = Completed visited' s' \<Longrightarrow> node \<noteq> ''__end__'' \<Longrightarrow>
   visited' \<noteq> [] \<and> last visited' = ''agent''
   \<and> (\<exists>m. lastMessage_of (messages s') = Some m \<and> pending_tool_calls m = 0)"
proof (induction limit arbitrary: node visited s)
  case 0
  then show ?case by simp
next
  case (Suc k)
  from Suc.prems obtain n s1 where st: "graph_step env node s = Inr (n, s1)"
    and r: "run env k n (visited @ [node]) s1 = Completed visited' s'"
    by (auto split: sum.splits)
  show ?case
  proof (cases "n = ''__end__''")
    case True
    with r have eq: "visited' = visited @ [node]" "s' = s1" by (cases k; simp)+
    from st True graph_step_end have "node = ''agent''"
      and "\<exists>m. messages s1 = messages s @ [m] \<and> pending_tool_calls m = 0" by blast+
    with eq show ?thesis by (auto simp add: lastMessage_of_def)
  next
    case False
    from Suc.IH [OF r False] show ?thesis .
  qed
qed

lemma run_looping:
  assumes loops: "\<forall>ms. \<exists>r. model env ms = Inr r \<and> pending_tool_calls r \<noteq> 0"
    and disp: "\<forall>s. \<exists>upd. toolNode env s = Inr upd"
  shows "node = ''agent'' \<or> node = ''tools'' \<Longrightarrow>
    \<exists>executed n' s'. run env N node visited s = Aborted StepLimitExceeded (visited @ executed) s'
       \<and> length executed = N \<and> after_steps env N node s = Some (n', s')"
proof (induction N arbitrary: node visited s)
  case 0
  then show ?case by auto
next
  case (Suc k)
  from Suc.prems have ne: "node \<noteq> ''__end__''" by auto
  have "\<exists>n s1. graph_step env node s = Inr (n, s1) \<and> (n = ''agent'' \<or> n = ''tools'')"
  proof (cases "node = ''agent''")
    case True
    from loops obtain r where "model env (messages s) = Inr r" "pending_tool_calls r \<noteq> 0"
      by blast
    with True show ?thesis by (simp add: graph_step_agent shouldContinue_snoc)
  next
    case False
    with Suc.prems have t: "node = ''tools''" by simp
    from disp obtain upd where "toolNode env s = Inr upd" by blast
    with t show ?thesis by (simp add: graph_step_tools)
  qed
  then obtain n s1 where st: "graph_step env node s = Inr (n, s1)"
    and n: "n = ''agent'' \<or> n = ''tools''" by blast
  from Suc.IH [OF n, of "visited @ [node]" s1]
  obtain executed n' s' where
    "run env k n (visited @ [node]) s1 = Aborted StepLimitExceeded ((visited @ [node]) @ executed) s'"
    "length executed = k" "after_steps env k n s1 = Some (n', s')" by blast
  with st ne show ?case
    by (intro exI [of _ "node # executed"] exI [of _ n'] exI [of _ s']) simp
qed


lemma run_after_steps:
  "after_steps env N node s = Some (n', s') \<Longrightarrow>
   \<exists>executed. length executed = N \<and>
     run env N node visited s =
       (if n' = ''__end__'' then Completed (visited @ executed) s'
        else Aborted StepLimitExceeded (visited @ executed) s')"
proof (induction N arbitrary: node visited s)
  case 0
  then show ?case by auto
next
  case (Suc k)
  from Suc.prems have ne: "node \<noteq> ''__end__''" by (auto split: if_splits)
  with Suc.prems obtain n s1 where st: "graph_step env node s = Inr (n, s1)"
    and a: "after_steps env k n s1 = Some (n', s')"
    by (auto split: sum.splits)
  from Suc.IH [OF a, of "visited @ [node]"] obtain executed where
    "length executed = k"
    "run env k n (visited @ [node]) s1 =
       (if n' = ''__end__'' then Completed ((visited @ [node]) @ executed) s'
        else Aborted StepLimitExceeded ((visited @ [node]) @ executed) s')" by blast
  with st ne show ?case
    by (intro exI [of _ "node # executed"]) simp
qed

lemma app_invoke_run:
  "app_invoke env limit input = run env limit ''agent'' [] \<lparr>messages = input\<rparr>"
  by (simp add: app_invoke_def next_node_def graph_conditional_edges_def graph_edges_def
      merge_StateAnnotation_def StateAnnotation_messages_reducer_def
      StateAnnotation_messages_default_def)

lemmas graph_eval =
  graph_step_def graph_nodes_def callModel_def next_node_def
  graph_conditional_edges_def graph_edges_def shouldContinue_def lastMessage_of_def
  merge_StateAnnotation_def StateAnnotation_messages_reducer_def
  ai_response_def tool_result_def human_text_def search_call_def

text \<open>
  Claim C6. Under the step limit \<open>N\<close> of the specification's orchestrator, a run of the
  graph that has not reached the terminal marker after \<open>N\<close> steps fails with
  \<open>StepLimitExceeded\<close> after exactly \<open>N\<close> executed steps and returns the state merged by
  those steps; in particular this holds whenever the model always requests a tool
  and the tool node always returns, since \<open>tools\<close> leads back to \<open>agent\<close>.
\<close>

theorem step_limit_exceeded:
  "(after_steps env N ''agent'' \<lparr>messages = input\<rparr> = Some (n', s') \<and> n' \<noteq> ''__end__'' \<longrightarrow>
      (\<exists>executed. app_invoke env N input = Aborted StepLimitExceeded executed s'
         \<and> length executed = N))
   \<and> ((\<forall>ms. \<exists>r. model env ms = Inr r \<and> pending_tool_calls r \<noteq> 0)
        \<and> (\<forall>s. \<exists>upd. toolNode env s = Inr upd) \<longrightarrow>
      (\<exists>executed n s. app_invoke env N input = Aborted StepLimitExceeded executed s
         \<and> length executed = N
         \<and> after_steps env N ''agent'' \<lparr>messages = input\<rparr> = Some (n, s)))"
proof (intro conjI impI)
  assume a: "after_steps env N ''agent'' \<lparr>messages = input\<rparr> = Some (n', s') \<and> n' \<noteq> ''__end__''"
  with run_after_steps [of env N "''agent''" "\<lparr>messages = input\<rparr>" n' s' "[]"]
  show "\<exists>executed. app_invoke env N input = Aborted StepLimitExceeded executed s'
         \<and> length executed = N"
    by (auto simp add: app_invoke_run)
next
  assume "(\<forall>ms. \<exists>r. model env ms = Inr r \<and> pending_tool_calls r \<noteq> 0)
        \<and> (\<forall>s. \<exists>upd. toolNode env s = Inr upd)"
  with run_looping [of env "''agent''" N "[]" "\<lparr>messages = input\<rparr>"]
  show "\<exists>executed n s. app_invoke env N input = Aborted StepLimitExceeded executed s
         \<and> length executed = N
         \<and> after_steps env N ''agent'' \<lparr>messages = input\<rparr> = Some (n, s)"
    by (auto simp add: app_invoke_run)
qed

text \<open>The scenario of the specification: step limit 1 on the looping graph.\<close>

theorem step_limit_exceeded_witness:
  "app_invoke \<lparr>model = \<lambda>_. Inr (ai_response ''call'' [search_call]),
               toolNode = \<lambda>_. Inr [tool_result ''result'']\<rparr>
     (Suc 0) [human_text ''What is LangGraph??'']
   = Aborted StepLimitExceeded [''agent'']
       \<lparr>messages = [human_text ''What is LangGraph??'', ai_response ''call'' [search_call]]\<rparr>"
  using step_limit_exceeded
    [of "\<lparr>model = \<lambda>_. Inr (ai_response ''call'' [search_call]),
               toolNode = \<lambda>_. Inr [tool_result ''result'']\<rparr>"
        "Suc 0" "[human_text ''What is LangGraph??'']" "''tools''"
        "\<lparr>messages = [human_text ''What is LangGraph??'', ai_response ''call'' [search_call]]\<rparr>"]
  by (simp add: app_invoke_run graph_eval)

text \<open>
  Claim C9. The \<open>tools\<close> node has the single fixed successor \<open>agent\<close> and no conditional
  edge; a step that leads to \<open>__end__\<close> is a step of \<open>agent\<close> whose response, the new
  last message, carries no tool invocation; and every completed run ends with an
  \<open>agent\<close> step on such a last message, never with a \<open>tools\<close> step.
\<close>

theorem end_only_after_agent:
  "fixed_successors ''tools'' = [''agent'']
   \<and> map_of graph_conditional_edges ''tools'' = None
   \<and> (graph_step env node s = Inr (''__end__'', s') \<longrightarrow>
        node = ''agent'' \<and> (\<exists>m. messages s' = messages s @ [m] \<and> pending_tool_calls m = 0))
   \<and> (app_invoke env limit input = Completed visited t \<longrightarrow>
        visited \<noteq> [] \<and> last visited = ''agent''
        \<and> (\<exists>m. lastMessage_of (messages t) = Some m \<and> pending_tool_calls m = 0))"
proof (intro conjI impI)
  show "fixed_successors ''tools'' = [''agent'']"
    by (simp add: fixed_successors_def graph_edges_def)
  show "map_of graph_conditional_edges ''tools'' = None"
    by (simp add: graph_conditional_edges_def)
next
  assume "graph_step env node s = Inr (''__end__'', s')"
  then show "node = ''agent''"
    and "\<exists>m. messages s' = messages s @ [m] \<and> pending_tool_calls m = 0"
    using graph_step_end by blast+
next
  assume "app_invoke env limit input = Completed visited t"
  then have r: "run env limit ''agent'' [] \<lparr>messages = input\<rparr> = Completed visited t"
    by (simp add: app_invoke_run)
  have "''agent'' \<noteq> ''__end__''" by simp
  from run_completed [OF r this]
  show "visited \<noteq> []" and "last visited = ''agent''"
    and "\<exists>m. lastMessage_of (messages t) = Some m \<and> pending_tool_calls m = 0"
    by blast+
qed

theorem end_only_after_agent_witness:
  "app_invoke
     \<lparr>model = \<lambda>ms. if msg_type (last ms) = ToolResult then Inr (ai_response ''answer'' [])
                    else Inr (ai_response ''call'' [search_call]),
      toolNode = \<lambda>_. Inr [tool_result ''result'']\<rparr>
     (Suc (Suc (Suc 0))) [human_text ''What is LangGraph??'']
   = Completed [''agent'', ''tools'', ''agent'']
       \<lparr>messages = [human_text ''What is LangGraph??'', ai_response ''call'' [search_call],
                    tool_result ''result'', ai_response ''answer'' []]\<rparr>
   \<and> graph_step
     \<lparr>model = \<lambda>ms. if msg_type (last ms) = ToolResult then Inr (ai_response ''answer'' [])
                    else Inr (ai_response ''call'' [search_call]),
      toolNode = \<lambda>_. Inr [tool_result ''result'']\<rparr>
     ''agent''
     \<lparr>messages = [human_text ''What is LangGraph??'', ai_response ''call'' [search_call],
                    tool_result ''result'']\<rparr>
   = Inr (''__end__'', \<lparr>messages = [human_text ''What is LangGraph??'',
                    ai_response ''call'' [search_call],
                    tool_result ''result'', ai_response ''answer'' []]\<rparr>)"
  using end_only_after_agent
    [of "\<lparr>model = \<lambda>ms. if msg_type (last ms) = ToolResult then Inr (ai_response ''answer'' [])
                    else Inr (ai_response ''call'' [search_call]),
      toolNode = \<lambda>_. Inr [tool_result ''result'']\<rparr>"
      "''agent''"
      "\<lparr>messages = [human_text ''What is LangGraph??'', ai_response ''call'' [search_call],
                    tool_result ''result'']\<rparr>"
      "\<lparr>messages = [human_text ''What is LangGraph??'',
                    ai_response ''call'' [search_call],
                    tool_result ''result'', ai_response ''answer'' []]\<rparr>"
      "Suc (Suc (Suc 0))" "[human_text ''What is LangGraph??'']"
      "[''agent'', ''tools'', ''agent'']"
      "\<lparr>messages = [human_text ''What is LangGraph??'', ai_response ''call'' [search_call],
                    tool_result ''result'', ai_response ''answer'' []]\<rparr>"]
  by (simp add: app_invoke_run graph_eval)

section \<open>Properties of the chart tool\<close>

lemma chartTool_completes:
  "createCanvas libs 500 500 = Inr () \<Longrightarrow> \<forall>ops. display_png libs ops = Inr () \<Longrightarrow>
   \<exists>drawn. chartTool libs data = Inr (drawn, ''Chart has been generated and displayed to the user!'')"
  by (simp add: chartTool_def Let_def)


text \<open>
  Claim C10. Whenever the handler of the chart tool runs to completion, on any data
  array, it returns the fixed string; the chart itself is what was drawn on the canvas
  and handed to the display, and is not part of the return value.
\<close>

theorem chartTool_return_value:
  "chartTool libs data = Inr (drawn, r) \<Longrightarrow>
   r = ''Chart has been generated and displayed to the user!''
   \<and> createCanvas libs 500 500 = Inr () \<and> display_png libs drawn = Inr ()"
  by (auto simp add: chartTool_def Let_def split: sum.splits)

text \<open>The handler on the empty array and on a single data point.\<close>

theorem chartTool_return_value_witness:
  "chartTool stub_libs [] =
     Inr ([BeginPath, SetStrokeStyle ''black'', MoveTo 40 470, LineTo 470 470, Stroke,
           SetTextAlign ''center'', SetTextBaseline ''top'',
           BeginPath, MoveTo 40 480, LineTo 40 470, Stroke,
           SetTextAlign ''right'', SetTextBaseline ''middle'',
           MoveTo 40 470, LineTo 34 470, Stroke, FillText ''0'' 32 470],
          ''Chart has been generated and displayed to the user!'')
   \<and> chartTool stub_libs [\<lparr>dp_label = ''a'', dp_value = 3\<rparr>] =
     Inr ([SetFillStyle ''#e6194B'', FillRect 40 470 430 0,
           BeginPath, SetStrokeStyle ''black'', MoveTo 40 470, LineTo 470 470, Stroke,
           SetTextAlign ''center'', SetTextBaseline ''top'', FillText ''a'' 255 476,
           BeginPath, MoveTo 40 480, LineTo 40 470, Stroke,
           SetTextAlign ''right'', SetTextBaseline ''middle'',
           MoveTo 40 470, LineTo 34 470, Stroke, FillText ''0'' 32 470],
          ''Chart has been generated and displayed to the user!'')"
  using chartTool_return_value [of stub_libs "[]"
      "[BeginPath, SetStrokeStyle ''black'', MoveTo 40 470, LineTo 470 470, Stroke,
           SetTextAlign ''center'', SetTextBaseline ''top'',
           BeginPath, MoveTo 40 480, LineTo 40 470, Stroke,
           SetTextAlign ''right'', SetTextBaseline ''middle'',
           MoveTo 40 470, LineTo 34 470, Stroke, FillText ''0'' 32 470]"
      "''Chart has been generated and displayed to the user!''"]
  by (simp add: chartTool_def stub_libs_def colorPalette_def or_zero_def enumerate_eq_zip)

end
